theory Spec2Isabelle
  imports Complex_Main "HOL-Library.Multiset"
begin

section \<open>Python strings\<close>

text \<open>
  The sources work on Python \<open>str\<close> values. They are modelled as \<open>string\<close> over the ASCII
  range: case mapping, digits and white space are the ASCII ones (Python's \<open>str.lower\<close>,
  \<open>\d\<close> and \<open>\s\<close> also know the non-ASCII code points, which are outside this model).
\<close>

definition upper_chars :: string where
  "upper_chars = ''ABCDEFGHIJKLMNOPQRSTUVWXYZ''"

definition lower_chars :: string where
  "lower_chars = ''abcdefghijklmnopqrstuvwxyz''"

definition is_upper :: "char \<Rightarrow> bool" where
  "is_upper c = (c \<in> set upper_chars)"

definition is_lower :: "char \<Rightarrow> bool" where
  "is_lower c = (c \<in> set lower_chars)"

definition is_alpha :: "char \<Rightarrow> bool" where
  "is_alpha c = (is_upper c \<or> is_lower c)"

definition is_digit :: "char \<Rightarrow> bool" where
  "is_digit c = (c \<in> set ''0123456789'')"

text \<open>\<open>str.isspace\<close> on ASCII: tab, line feed, vertical tab, form feed, carriage return,
  the four separators 28..31 and the blank.\<close>

definition is_space :: "char \<Rightarrow> bool" where
  "is_space c = (c \<in> set [CHR 0x09, CHR 0x0A, CHR 0x0B, CHR 0x0C, CHR 0x0D,
                             CHR 0x1C, CHR 0x1D, CHR 0x1E, CHR 0x1F, CHR '' ''])"

definition to_lower :: "char \<Rightarrow> char" where
  "to_lower c = (case map_of (zip upper_chars lower_chars) c of Some d \<Rightarrow> d | None \<Rightarrow> c)"

definition to_upper :: "char \<Rightarrow> char" where
  "to_upper c = (case map_of (zip lower_chars upper_chars) c of Some d \<Rightarrow> d | None \<Rightarrow> c)"

definition py_lower :: "string \<Rightarrow> string" where
  "py_lower s = map to_lower s"

text \<open>\<open>str.title\<close>: a cased character is upper-cased when the character before it is not
  cased, and lower-cased otherwise.\<close>

fun title_from :: "bool \<Rightarrow> string \<Rightarrow> string" where
  "title_from prev [] = []"
| "title_from prev (c # cs) =
     (if is_alpha c then (if prev then to_lower c else to_upper c) # title_from True cs
      else c # title_from False cs)"

definition py_title :: "string \<Rightarrow> string" where
  "py_title s = title_from False s"

definition py_strip :: "string \<Rightarrow> string" where
  "py_strip s = rev (dropWhile is_space (rev (dropWhile is_space s)))"

text \<open>\<open>needle in hay\<close> on strings.\<close>

fun starts_with :: "string \<Rightarrow> string \<Rightarrow> bool" where
  "starts_with [] hay = True"
| "starts_with (p # ps) [] = False"
| "starts_with (p # ps) (c # cs) = (p = c \<and> starts_with ps cs)"

fun py_in :: "string \<Rightarrow> string \<Rightarrow> bool" where
  "py_in needle [] = (needle = [])"
| "py_in needle (c # cs) = (starts_with needle (c # cs) \<or> py_in needle cs)"

text \<open>\<open>sep.join(parts)\<close>.\<close>

fun py_join :: "string \<Rightarrow> string list \<Rightarrow> string" where
  "py_join sep [] = []"
| "py_join sep [x] = x"
| "py_join sep (x # y # ys) = x @ sep @ py_join sep (y # ys)"

text \<open>Splitting at every single delimiter character, as \<open>re.split(r'[,;|]', s)\<close> and
  \<open>s.split(',')\<close> do: \<open>n\<close> delimiters give \<open>n + 1\<close> pieces, empty ones included.\<close>

fun split_on :: "(char \<Rightarrow> bool) \<Rightarrow> string \<Rightarrow> string list" where
  "split_on p [] = [[]]"
| "split_on p (c # cs) =
     (if p c then [] # split_on p cs
      else (case split_on p cs of [] \<Rightarrow> [[c]] | w # ws \<Rightarrow> (c # w) # ws))"

text \<open>\<open>s.split()\<close>: the maximal runs of non-space characters.\<close>

function py_words :: "string \<Rightarrow> string list" where
  "py_words [] = []"
| "py_words (c # cs) =
     (if is_space c then py_words cs
      else (c # takeWhile (\<lambda>d. \<not> is_space d) cs) # py_words (dropWhile (\<lambda>d. \<not> is_space d) cs))"
  by pat_completeness auto
termination
  by (relation "measure length") (auto simp: less_Suc_eq_le length_dropWhile_le)


subsection \<open>Numeric tokens\<close>






definition digit_val :: "char \<Rightarrow> nat" where
  "digit_val c =
     (case map_of (zip ''0123456789'' [0, 1, 2, 3, 4, 5, 6, 7, 8, 9]) c of
        Some d \<Rightarrow> d
      | None \<Rightarrow> 0)"

definition nat_of_digits :: "string \<Rightarrow> nat" where
  "nat_of_digits ds = foldl (\<lambda>a c. 10 * a + digit_val c) 0 ds"


text \<open>The number that a token of \<open>findall_dec\<close> writes.\<close>

definition dec_value :: "string \<Rightarrow> real" where
  "dec_value tok =
     (let ip = takeWhile is_digit tok; fp = drop 1 (dropWhile is_digit tok)
      in real (nat_of_digits ip) + real (nat_of_digits fp) / 10 ^ length fp)"

text \<open>
  A Python float is a double. The doubles are taken as real numbers, and the rounding of a
  real number to the nearest double is the parameter \<open>rnd\<close> of every definition that computes
  with floats: \<open>float(tok)\<close> rounds the number that the token writes, and a product of two
  floats is the rounded product. Only the order of the values is used below, so \<open>inf\<close>, which
  a token beyond the range of the doubles gives, may be read as the greatest value of \<open>rnd\<close>.
\<close>

definition py_float :: "(real \<Rightarrow> real) \<Rightarrow> string \<Rightarrow> real" where
  "py_float rnd tok = rnd (dec_value tok)"

text \<open>What is used of the rounding: it keeps the order, it leaves a double as it is, and
  0 and 1 are doubles.\<close>

definition rounding :: "(real \<Rightarrow> real) \<Rightarrow> bool" where
  "rounding rnd =
     ((\<forall>x y. x \<le> y \<longrightarrow> rnd x \<le> rnd y) \<and> (\<forall>x. rnd (rnd x) = rnd x) \<and> rnd 0 = 0 \<and> rnd 1 = 1)"

section \<open>The job table\<close>

text \<open>
  A cell of a text column is \<open>None\<close> where pandas holds the missing value (\<open>pd.isna\<close>) and
  \<open>Some s\<close> where it holds a value whose \<open>str(...)\<close> is \<open>s\<close>. A numeric column holds
  \<open>None\<close> for NaN. One record type serves the raw rows and the processed rows: the columns
  that \<open>process_jobs\<close> computes are overwritten by it.
\<close>

type_synonym cell = "string option"

record job =
  job_title :: cell
  company :: cell
  location :: cell
  skills :: cell
  description :: cell
  salary :: cell
  experience :: cell
  salary_min :: "real option"
  salary_max :: "real option"
  exp_min :: "int option"
  exp_max :: "int option"
  experience_level :: cell
  posted_date :: "nat option"
  combined_text :: cell





section \<open>DataProcessor\<close>

















section \<open>RecommendationEngine\<close>

subsection \<open>What the libraries contribute\<close>

text \<open>
  The engine calls scikit-learn, pandas and numpy, which are not part of the repository.
  Their contribution enters the model as follows.
  \<^item> The fitted \<open>TfidfVectorizer\<close> is a function from a text to its weight vector; fitting is a
    parameter \<open>fit\<close>, which fails on a corpus without vocabulary.
  \<^item> \<open>cosine_similarity\<close> is written out over the reals as scikit-learn documents it: both
    rows are divided by their Euclidean norm, a row of norm zero is left as it is, and the
    dot product of the two is the result. The source computes in double precision;
    rounding is outside this model.
  \<^item> \<open>np.argsort\<close> is a parameter \<open>argsort\<close>: for an array of keys it gives their positions in
    ascending order of the key. Its default \<open>quicksort\<close> promises no order among equal keys.
  \<^item> \<open>sort_values('compatibility_score', ascending=False)\<close> is written out as pandas computes
    it from \<open>argsort\<close>: the column is reversed, the positions of the reversed column are
    sorted in ascending order, mapped back to the positions of the column, and the result is
    reversed. The source passes no \<open>kind\<close>, so the sort of the positions is the default one.
  \<^item> A pattern given to \<open>Series.str.contains\<close> is a regular expression. A pattern without
    any special character stands for itself; every other pattern is handed to the parameter
    \<open>rx\<close>, which is \<open>None\<close> where \<open>re.compile\<close> raises \<open>re.error\<close>.
\<close>

type_synonym vec = "real list"

definition dot :: "vec \<Rightarrow> vec \<Rightarrow> real" where
  "dot xs ys = sum_list (map (\<lambda>(x, y). x * y) (zip xs ys))"

definition l2_norm :: "vec \<Rightarrow> real" where
  "l2_norm xs = sqrt (dot xs xs)"

definition normalize :: "vec \<Rightarrow> vec" where
  "normalize xs = (if l2_norm xs = 0 then xs else map (\<lambda>x. x / l2_norm xs) xs)"

definition cosine_similarity :: "vec \<Rightarrow> vec \<Rightarrow> real" where
  "cosine_similarity x y = dot (normalize x) (normalize y)"

definition re_special :: "char \<Rightarrow> bool" where
  "re_special c = (c \<in> set ''.^$*+?{}[]|()'' \<or> c = CHR 0x5C)"

datatype error = ReError | ValueError

text \<open>\<open>re.compile(pat, re.IGNORECASE).search\<close>.\<close>

definition compile_ci :: "(string \<Rightarrow> (string \<Rightarrow> bool) option) \<Rightarrow> string \<Rightarrow> (string \<Rightarrow> bool) option"
  where
  "compile_ci rx pat =
     (if \<exists>c \<in> set pat. re_special c then rx pat
      else Some (\<lambda>s. py_in (py_lower pat) (py_lower s)))"

text \<open>\<open>series.str.contains(pat, case=False, na=False)\<close> on one cell, for a compiled pattern.\<close>

definition cell_contains :: "(string \<Rightarrow> bool) \<Rightarrow> cell \<Rightarrow> bool" where
  "cell_contains m c = (case c of None \<Rightarrow> False | Some s \<Rightarrow> m s)"

definition contains_remote :: "cell \<Rightarrow> bool" where
  "contains_remote c = cell_contains (\<lambda>s. py_in (py_lower ''Remote'') (py_lower s)) c"

text \<open>\<open>str(x)\<close> of a cell: the missing value prints as \<open>nan\<close>.\<close>

definition py_str :: "cell \<Rightarrow> string" where
  "py_str c = (case c of None \<Rightarrow> ''nan'' | Some s \<Rightarrow> s)"

text \<open>Comparisons of a numeric column with a number; with NaN they are false.\<close>

definition num_le :: "'a::linorder option \<Rightarrow> 'a \<Rightarrow> bool" where
  "num_le x v = (case x of None \<Rightarrow> False | Some a \<Rightarrow> a \<le> v)"

definition num_ge :: "'a::linorder option \<Rightarrow> 'a \<Rightarrow> bool" where
  "num_ge x v = (case x of None \<Rightarrow> False | Some a \<Rightarrow> a \<ge> v)"

text \<open>Python slicing \<open>xs[start:stop]\<close> and \<open>DataFrame.head(n)\<close>.\<close>

definition py_slice :: "'a list \<Rightarrow> int \<Rightarrow> int \<Rightarrow> 'a list" where
  "py_slice xs start stop =
     (let n = int (length xs);
          s = (if start < 0 then max (start + n) 0 else min start n);
          e = (if stop < 0 then max (stop + n) 0 else min stop n)
      in take (nat (e - s)) (drop (nat s) xs))"

definition py_head :: "int \<Rightarrow> 'a list \<Rightarrow> 'a list" where
  "py_head n xs = (if n \<ge> 0 then take (nat n) xs else take (length xs - nat (- n)) xs)"

subsection \<open>Construction\<close>

record engine =
  jobs_df :: "job list"
  transform :: "string \<Rightarrow> vec"
  job_vectors :: "vec list"

definition combine_job_features :: "job \<Rightarrow> string" where
  "combine_job_features row =
     py_join '' ''
       ((case job_title row of None \<Rightarrow> [] | Some t \<Rightarrow> [t @ t]) @
        (case skills row of None \<Rightarrow> [] | Some t \<Rightarrow> [t]) @
        (case company row of None \<Rightarrow> [] | Some t \<Rightarrow> [t]) @
        (case description row of None \<Rightarrow> [] | Some t \<Rightarrow> [t]))"

definition prepare_data ::
  "(string list \<Rightarrow> (string \<Rightarrow> vec) option) \<Rightarrow> job list \<Rightarrow> engine option" where
  "prepare_data fit jobs =
     (let df = map (\<lambda>r. r\<lparr>combined_text := Some (combine_job_features r)\<rparr>) jobs;
          texts = map (\<lambda>r. case combined_text r of None \<Rightarrow> [] | Some t \<Rightarrow> t) df
      in (case fit texts of
            None \<Rightarrow> None
          | Some tr \<Rightarrow> Some \<lparr>jobs_df = df, transform = tr, job_vectors = map tr texts\<rparr>))"

subsection \<open>Recommendations\<close>

text \<open>A row of the frame that \<open>get_recommendations\<close> works on: its index label (the position
  in the corpus), the posting and the score; the result adds the explanation.\<close>

record rec_row =
  ix :: nat
  posting :: job
  compatibility_score :: real

record recommendation = rec_row +
  match_explanation :: string

definition extract_experience_years :: "string \<Rightarrow> int option" where
  "extract_experience_years level =
     (if py_in ''Entry'' level then Some 1
      else if py_in ''Mid'' level then Some 4
      else if py_in ''Senior'' level then Some 8
      else if py_in ''Expert'' level then Some 12
      else None)"

definition filter_location :: "string option \<Rightarrow> rec_row list \<Rightarrow> rec_row list" where
  "filter_location location_arg df =
     (case location_arg of
        None \<Rightarrow> df
      | Some l \<Rightarrow>
          (if l \<noteq> [] \<and> l \<noteq> ''Any'' then
             (if l = ''Remote'' then filter (\<lambda>r. contains_remote (location (posting r))) df
              else filter (\<lambda>r. location (posting r) = Some l \<or>
                                contains_remote (location (posting r))) df)
           else df))"

definition filter_experience :: "string option \<Rightarrow> rec_row list \<Rightarrow> rec_row list" where
  "filter_experience level_arg df =
     (case level_arg of
        None \<Rightarrow> df
      | Some level \<Rightarrow>
          (if level \<noteq> [] then
             (case extract_experience_years level of
                None \<Rightarrow> df
              | Some exp_years \<Rightarrow>
                  filter (\<lambda>r. num_le (exp_min (posting r)) exp_years \<and>
                              num_ge (exp_max (posting r)) exp_years) df)
           else df))"

definition filter_salary :: "real option \<Rightarrow> real option \<Rightarrow> rec_row list \<Rightarrow> rec_row list" where
  "filter_salary salary_min_arg salary_max_arg df =
     (case (salary_min_arg, salary_max_arg) of
        (Some lo, Some hi) \<Rightarrow>
          filter (\<lambda>r. num_ge (salary_max (posting r)) lo \<and> num_le (salary_min (posting r)) hi) df
      | _ \<Rightarrow> df)"

definition apply_filters ::
  "rec_row list \<Rightarrow> string option \<Rightarrow> string option \<Rightarrow> real option \<Rightarrow> real option \<Rightarrow> rec_row list"
  where
  "apply_filters df location_arg level_arg salary_min_arg salary_max_arg =
     filter_salary salary_min_arg salary_max_arg
       (filter_experience level_arg (filter_location location_arg df))"

definition generate_match_explanation :: "job \<Rightarrow> string list \<Rightarrow> string" where
  "generate_match_explanation job_row user_skills =
     (let job_skills_str = py_lower (py_str (skills job_row));
          matching_skills = filter (\<lambda>skill. py_in (py_lower skill) job_skills_str) user_skills;
          explanations =
            (if matching_skills \<noteq> []
             then [''Matching skills: '' @ py_join '', '' (take 3 matching_skills)] else []);
          title_l = py_lower (py_str (job_title job_row));
          title_keywords = map py_lower (filter (\<lambda>skill. length skill > 3) user_skills);
          explanations =
            (case find (\<lambda>keyword. py_in keyword title_l) title_keywords of
               Some keyword \<Rightarrow>
                 explanations @ [''Title contains '' @ [CHR 0x27] @ keyword @ [CHR 0x27]]
             | None \<Rightarrow> explanations);
          explanations = (if explanations = [] then [''General profile match''] else explanations)
      in py_join '' | '' (take 2 explanations))"

definition sort_values_desc :: "(real list \<Rightarrow> nat list) \<Rightarrow> rec_row list \<Rightarrow> rec_row list" where
  "sort_values_desc argsort df =
     (let items = rev (map compatibility_score df);
          idx = rev [0 ..< length df];
          indexer = rev (map (\<lambda>j. idx ! j) (argsort items))
      in map (\<lambda>i. df ! i) indexer)"

definition scored_rows :: "engine \<Rightarrow> string list \<Rightarrow> rec_row list" where
  "scored_rows eng user_skills =
     (let user_profile = py_join '' '' user_skills;
          user_vector = transform eng user_profile;
          similarity_scores = map (cosine_similarity user_vector) (job_vectors eng)
      in map (\<lambda>(i, r, sc). \<lparr>ix = i, posting = r, compatibility_score = sc\<rparr>)
             (zip [0 ..< length (jobs_df eng)] (zip (jobs_df eng) similarity_scores)))"

definition get_recommendations ::
  "(real list \<Rightarrow> nat list) \<Rightarrow> engine \<Rightarrow> string list \<Rightarrow> string option \<Rightarrow> string option \<Rightarrow>
   real option \<Rightarrow> real option \<Rightarrow> int \<Rightarrow> recommendation list" where
  "get_recommendations argsort eng user_skills location_arg level_arg salary_min_arg
     salary_max_arg top_n =
     (let recommendations_df = scored_rows eng user_skills;
          recommendations_df =
            apply_filters recommendations_df location_arg level_arg salary_min_arg salary_max_arg;
          recommendations_df = py_head top_n (sort_values_desc argsort recommendations_df)
      in map (\<lambda>r. \<lparr>ix = ix r, posting = posting r, compatibility_score = compatibility_score r,
                    match_explanation = generate_match_explanation (posting r) user_skills\<rparr>)
             recommendations_df)"

subsection \<open>Skill gaps\<close>

record gap_report =
  target_role :: string
  total_role_jobs :: nat
  existing_skills :: "string list"
  missing_skills :: "string list"
  skill_match_percentage :: real

text \<open>\<open>self.jobs_df[self.jobs_df['job_title'].str.contains(pat, case=False, na=False)]\<close>.\<close>

definition role_filter ::
  "(string \<Rightarrow> (string \<Rightarrow> bool) option) \<Rightarrow> job list \<Rightarrow> string \<Rightarrow> error + job list" where
  "role_filter rx jobs pat =
     (case compile_ci rx pat of
        None \<Rightarrow> Inl ReError
      | Some m \<Rightarrow> Inr (filter (\<lambda>r. cell_contains m (job_title r)) jobs))"

text \<open>The loop over the keywords: the first keyword with a match ends it; without any, the
  frame of the last keyword (an empty one) stays.\<close>

fun keyword_search ::
  "(string \<Rightarrow> (string \<Rightarrow> bool) option) \<Rightarrow> job list \<Rightarrow> job list \<Rightarrow> string list \<Rightarrow> error + job list"
  where
  "keyword_search rx jobs role_jobs [] = Inr role_jobs"
| "keyword_search rx jobs role_jobs (keyword # keywords) =
     (case role_filter rx jobs keyword of
        Inl e \<Rightarrow> Inl e
      | Inr found \<Rightarrow> if found \<noteq> [] then Inr found else keyword_search rx jobs found keywords)"

text \<open>The skills named in a cell: \<open>[skill.strip() for skill in str(skills_str).split(',')
  if skill.strip()]\<close>.\<close>

definition skill_tokens :: "string \<Rightarrow> string list" where
  "skill_tokens skills_str =
     map py_strip (filter (\<lambda>skill. py_strip skill \<noteq> [])
                          (split_on (\<lambda>c. c = CHR '','') skills_str))"

definition skills_similar :: "string \<Rightarrow> string \<Rightarrow> bool" where
  "skills_similar skill1 skill2 =
     (if length skill1 < 3 \<or> length skill2 < 3 then skill1 = skill2
      else py_in skill1 skill2 \<or> py_in skill2 skill1 \<or>
           \<bar>int (length skill1) - int (length skill2)\<bar> \<le> 2)"

text \<open>\<open>skill_counts\<close>, the dictionary of the frequencies, as the function that
  \<open>skill_counts.get(k, 0)\<close> is.\<close>

definition skill_counts :: "job list \<Rightarrow> string \<Rightarrow> nat" where
  "skill_counts role_jobs k =
     count_list (concat (map (\<lambda>r. case skills r of
                                     None \<Rightarrow> []
                                   | Some s \<Rightarrow> map py_lower (skill_tokens s)) role_jobs)) k"

text \<open>\<open>required_skills\<close> is a Python set. Here it is the list of its elements without
  duplicates, in the order of their first insertion; the order in which CPython walks a set
  of strings is another arrangement of the same elements.\<close>

definition required_skills_of :: "job list \<Rightarrow> string list" where
  "required_skills_of role_jobs =
     remdups (concat (map (\<lambda>r. case skills r of
                                  None \<Rightarrow> []
                                | Some s \<Rightarrow> map py_lower (skill_tokens s)) role_jobs))"

definition skill_held :: "string list \<Rightarrow> string \<Rightarrow> bool" where
  "skill_held user_skills_lower req_skill =
     (\<exists>user_skill \<in> set user_skills_lower.
        py_in user_skill req_skill \<or> py_in req_skill user_skill \<or>
        skills_similar user_skill req_skill)"

definition analyze_skill_gaps ::
  "(string \<Rightarrow> (string \<Rightarrow> bool) option) \<Rightarrow> engine \<Rightarrow> string list \<Rightarrow> string \<Rightarrow> error + gap_report"
  where
  "analyze_skill_gaps rx eng user_skills role =
     (case role_filter rx (jobs_df eng) role of
        Inl e \<Rightarrow> Inl e
      | Inr exact \<Rightarrow>
          (case (if exact = [] then keyword_search rx (jobs_df eng) exact (py_words (py_lower role))
                 else Inr exact) of
             Inl e \<Rightarrow> Inl e
           | Inr role_jobs \<Rightarrow>
               (let required_skills = required_skills_of role_jobs;
                    user_skills_lower = map py_lower user_skills;
                    existing = map py_title (filter (skill_held user_skills_lower) required_skills);
                    missing = map py_title
                                (filter (\<lambda>s. \<not> skill_held user_skills_lower s) required_skills);
                    missing_skills_with_counts =
                      map (\<lambda>skill. (skill, skill_counts role_jobs (py_lower skill))) missing;
                    missing_skills_sorted =
                      map fst (sort_key (\<lambda>x. - int (snd x)) missing_skills_with_counts)
                in Inr \<lparr>target_role = role,
                        total_role_jobs = length role_jobs,
                        existing_skills = remdups existing,
                        missing_skills = missing_skills_sorted,
                        skill_match_percentage =
                          real (length existing) / real (max (length required_skills) 1) * 100\<rparr>)))"

subsection \<open>Similar jobs\<close>

text \<open>\<open>cosine_similarity\<close> refuses an array without rows with a \<open>ValueError\<close>; the slice
  \<open>job_vectors[job_id:job_id+1]\<close> is such an array for some negative \<open>job_id\<close>.\<close>

definition get_similar_jobs ::
  "(real list \<Rightarrow> nat list) \<Rightarrow> engine \<Rightarrow> int \<Rightarrow> int \<Rightarrow> error + (job \<times> real) list" where
  "get_similar_jobs argsort eng job_id top_n =
     (if job_id \<ge> int (length (jobs_df eng)) then Inr []
      else
        (case py_slice (job_vectors eng) job_id (job_id + 1) of
           [] \<Rightarrow> Inl ValueError
         | job_vector # _ \<Rightarrow>
             (let similarities = map (cosine_similarity job_vector) (job_vectors eng);
                  similar_indices = py_slice (rev (argsort similarities)) 1 (top_n + 1)
              in Inr (map (\<lambda>i. (jobs_df eng ! i, similarities ! i)) similar_indices))))"

subsection \<open>The engine as an object\<close>

text \<open>
  The frames live in a store, addressed by position. The constructor reads the caller's
  frame at its address, stores \<open>jobs_df.copy()\<close> at a new address and keeps that address;
  \<open>_prepare_data\<close> adds the column \<open>combined_text\<close> to the copy. The vectorizer and the
  vectors are objects of the engine alone.
\<close>

type_synonym store = "job list list"

record engine_obj =
  df_addr :: nat
  vectorizer :: "string \<Rightarrow> vec"
  vectors :: "vec list"

definition engine_init ::
  "(string list \<Rightarrow> (string \<Rightarrow> vec) option) \<Rightarrow> store \<Rightarrow> nat \<Rightarrow> (store \<times> engine_obj) option"
  where
  "engine_init fit st a =
     (if a < length st then
        (case prepare_data fit (st ! a) of
           None \<Rightarrow> None
         | Some e \<Rightarrow>
             Some (st @ [jobs_df e],
                   \<lparr>df_addr = length st, vectorizer = transform e, vectors = job_vectors e\<rparr>))
      else None)"

definition deref :: "store \<Rightarrow> engine_obj \<Rightarrow> engine" where
  "deref st obj =
     \<lparr>jobs_df = st ! df_addr obj, transform = vectorizer obj, job_vectors = vectors obj\<rparr>"

text \<open>An assignment into the frame at address \<open>a\<close>, whatever it writes.\<close>

definition mutate :: "store \<Rightarrow> nat \<Rightarrow> job list \<Rightarrow> store" where
  "mutate st a df = st[a := df]"

subsection \<open>A sort of positions\<close>


section \<open>Cleaned strings\<close>




section \<open>Example values\<close>

definition job0 :: job where
  "job0 = \<lparr>job_title = None, company = None, location = None, skills = None, description = None,
            salary = None, experience = None, salary_min = None, salary_max = None,
            exp_min = None, exp_max = None, experience_level = None, posted_date = None,
            combined_text = None\<rparr>"

definition eng0 :: engine where
  "eng0 = \<lparr>jobs_df = [job0\<lparr>job_title := Some ''Data Analyst'', skills := Some ''Python, Sql''\<rparr>],
            transform = (\<lambda>s. [1]), job_vectors = [[1]]\<rparr>"

definition job1 :: job where
  "job1 = job0\<lparr>job_title := Some ''Python Developer'', skills := Some ''Python, Sql''\<rparr>"

definition job2 :: job where
  "job2 = job0\<lparr>job_title := Some ''Data Engineer'',
                skills := Some ''Python, Sql, Aws, Docker''\<rparr>"







definition fit0 :: "string list \<Rightarrow> (string \<Rightarrow> vec) option" where
  "fit0 texts = Some (\<lambda>s. [1])"

section \<open>Evaluating strings\<close>

lemmas str_eval = py_lower_def to_lower_def to_upper_def upper_chars_def lower_chars_def
  is_alpha_def is_upper_def is_lower_def is_digit_def is_space_def py_title_def py_strip_def
  py_str_def


section \<open>The salary filter\<close>

text \<open>
  C5. With both salary bounds given, \<open>_apply_filters\<close> keeps, of the rows that the location
  and experience filters leave, exactly those with \<open>salary_max \<ge> salary_min_arg\<close> and
  \<open>salary_min \<le> salary_max_arg\<close>. With one of the bounds absent the result is what the
  location and experience filters leave, every row of it, whatever its salary; without those
  filters it is the frame itself. A posting with the band (10, 20) passes the band (18, 25)
  and fails the band (25, 30).
\<close>

theorem salary_filter_overlap:
  "apply_filters df loc lvl (Some lo) (Some hi) =
     filter (\<lambda>r. num_ge (salary_max (posting r)) lo \<and> num_le (salary_min (posting r)) hi)
            (filter_experience lvl (filter_location loc df))
   \<and> apply_filters df loc lvl None b = filter_experience lvl (filter_location loc df)
   \<and> apply_filters df loc lvl a None = filter_experience lvl (filter_location loc df)
   \<and> apply_filters df None None None b = df
   \<and> apply_filters df None None a None = df
   \<and> filter_salary (Some lo) (Some hi)
        [r\<lparr>posting := (posting r)\<lparr>salary_min := Some mn, salary_max := Some mx\<rparr>\<rparr>]
      = (if mx \<ge> lo \<and> mn \<le> hi
         then [r\<lparr>posting := (posting r)\<lparr>salary_min := Some mn, salary_max := Some mx\<rparr>\<rparr>]
         else [])
   \<and> filter_salary (Some 18) (Some 25)
        [r\<lparr>posting := (posting r)\<lparr>salary_min := Some 10, salary_max := Some 20\<rparr>\<rparr>]
      = [r\<lparr>posting := (posting r)\<lparr>salary_min := Some 10, salary_max := Some 20\<rparr>\<rparr>]
   \<and> filter_salary (Some 25) (Some 30)
        [r\<lparr>posting := (posting r)\<lparr>salary_min := Some 10, salary_max := Some 20\<rparr>\<rparr>] = []"
  by (cases a)
     (simp_all add: apply_filters_def filter_salary_def filter_experience_def filter_location_def
        num_ge_def num_le_def)

theorem salary_filter_overlap_witness:
  "apply_filters
     [\<lparr>ix = 0, posting = job0\<lparr>salary_min := Some 10, salary_max := Some 20\<rparr>,
       compatibility_score = 0\<rparr>,
      \<lparr>ix = 1, posting = job0\<lparr>salary_min := Some 26, salary_max := Some 28\<rparr>,
       compatibility_score = 0\<rparr>,
      \<lparr>ix = 2, posting = job0, compatibility_score = 0\<rparr>]
     None None (Some 18) (Some 25) =
     [\<lparr>ix = 0, posting = job0\<lparr>salary_min := Some 10, salary_max := Some 20\<rparr>,
       compatibility_score = 0\<rparr>]
   \<and> apply_filters
     [\<lparr>ix = 0, posting = job0\<lparr>salary_min := Some 10, salary_max := Some 20\<rparr>,
       compatibility_score = 0\<rparr>,
      \<lparr>ix = 1, posting = job0\<lparr>salary_min := Some 26, salary_max := Some 28\<rparr>,
       compatibility_score = 0\<rparr>,
      \<lparr>ix = 2, posting = job0, compatibility_score = 0\<rparr>]
     None None None (Some 25) =
     [\<lparr>ix = 0, posting = job0\<lparr>salary_min := Some 10, salary_max := Some 20\<rparr>,
       compatibility_score = 0\<rparr>,
      \<lparr>ix = 1, posting = job0\<lparr>salary_min := Some 26, salary_max := Some 28\<rparr>,
       compatibility_score = 0\<rparr>,
      \<lparr>ix = 2, posting = job0, compatibility_score = 0\<rparr>]"
  using salary_filter_overlap
    [of "[\<lparr>ix = 0, posting = job0\<lparr>salary_min := Some 10, salary_max := Some 20\<rparr>,
           compatibility_score = 0\<rparr>,
          \<lparr>ix = 1, posting = job0\<lparr>salary_min := Some 26, salary_max := Some 28\<rparr>,
           compatibility_score = 0\<rparr>,
          \<lparr>ix = 2, posting = job0, compatibility_score = 0\<rparr>]" None None 18 25 "Some 25"]
  by (simp add: filter_location_def filter_experience_def num_ge_def num_le_def job0_def)

section \<open>Similar jobs\<close>

text \<open>
  C10. For a \<open>job_id\<close> that is at least the number of postings, \<open>get_similar_jobs\<close> returns
  the empty frame, for every \<open>top_n\<close>; no vector is read.
\<close>

theorem get_similar_jobs_out_of_range:
  "job_id \<ge> int (length (jobs_df eng)) \<Longrightarrow> get_similar_jobs argsort eng job_id top_n = Inr []"
  by (simp add: get_similar_jobs_def)

theorem get_similar_jobs_out_of_range_witness:
  "(1::int) \<ge> int (length (jobs_df eng0)) \<and> get_similar_jobs (\<lambda>ks. []) eng0 1 5 = Inr []"
proof -
  have h: "(1::int) \<ge> int (length (jobs_df eng0))"
    by (simp add: eng0_def)
  show ?thesis
    using h get_similar_jobs_out_of_range [OF h, of "\<lambda>ks. []" 5] by simp
qed

section \<open>Bounds of the normalized ranges\<close>

lemma dec_value_nonneg: "0 \<le> dec_value tok"
  by (simp add: dec_value_def Let_def)

lemma rounding_nonneg: "rounding rnd \<Longrightarrow> 0 \<le> x \<Longrightarrow> 0 \<le> rnd x"
  by (metis rounding_def)



lemma py_float_nonneg: "rounding rnd \<Longrightarrow> 0 \<le> py_float rnd tok"
  by (simp add: py_float_def rounding_nonneg dec_value_nonneg)

















section \<open>The match explanation\<close>

lemma job2_lower:
  "py_lower ''Python'' = ''python''" "py_lower ''SQL'' = ''sql''" "py_lower ''AWS'' = ''aws''"
  "py_lower ''Docker'' = ''docker''"
  "py_lower (py_str (skills job2)) = ''python, sql, aws, docker''"
  "py_lower (py_str (job_title job2)) = ''data engineer''"
  by (simp_all add: job2_def job0_def str_eval)

lemma job1_lower:
  "py_lower (py_str (skills job1)) = ''python, sql''"
  "py_lower (py_str (job_title job1)) = ''python developer''"
  by (simp_all add: job1_def job0_def str_eval)

text \<open>
  C6, as the code has it. The explanation names up to three of the user's skills that occur
  in the posting's skills text, case ignored. The title is searched in every case, also when
  skills matched: the first skill longer than three characters whose lower-case form occurs
  in the lower-case title adds the fragment \<open>Title contains '...'\<close> with the lower-case
  keyword. The fragments present are joined by \<open>|\<close> between blanks; without any, the
  explanation is \<open>General profile match\<close>.
\<close>

theorem match_explanation_cases:
  "generate_match_explanation job_row user_skills =
     (let matching = filter (\<lambda>skill. py_in (py_lower skill) (py_lower (py_str (skills job_row))))
                            user_skills;
          hit = find (\<lambda>keyword. py_in keyword (py_lower (py_str (job_title job_row))))
                     (map py_lower (filter (\<lambda>skill. length skill > 3) user_skills))
      in (case hit of
            Some keyword \<Rightarrow>
              (if matching \<noteq> []
               then ''Matching skills: '' @ py_join '', '' (take 3 matching) @ '' | '' @
                    ''Title contains '' @ [CHR 0x27] @ keyword @ [CHR 0x27]
               else ''Title contains '' @ [CHR 0x27] @ keyword @ [CHR 0x27])
          | None \<Rightarrow>
              (if matching \<noteq> []
               then ''Matching skills: '' @ py_join '', '' (take 3 matching)
               else ''General profile match'')))"
  by (simp add: generate_match_explanation_def Let_def split: option.splits)

theorem match_explanation_cases_witness:
  "generate_match_explanation job2 [''Python'', ''SQL'', ''AWS'', ''Docker'']
     = ''Matching skills: Python, SQL, AWS''"
  using match_explanation_cases [of job2 "[''Python'', ''SQL'', ''AWS'', ''Docker'']"]
  by (simp add: job2_lower)

text \<open>A skill matches the skills text, and the title is searched all the same.\<close>

theorem match_explanation_counterexample:
  "filter (\<lambda>skill. py_in (py_lower skill) (py_lower (py_str (skills job1)))) [''Python''] \<noteq> []
   \<and> generate_match_explanation job1 [''Python'']
     = ''Matching skills: Python | Title contains '' @ [CHR 0x27] @ ''python'' @ [CHR 0x27]"
  by (simp add: generate_match_explanation_def job1_lower job2_lower)

section \<open>The engine's own copy of the corpus\<close>

text \<open>
  C9. The constructor stores a copy of the caller's frame at a fresh address. Whatever is
  then written to a frame that existed before the construction, the caller's among them, the
  engine reads the same corpus, the one prepared from the caller's frame as it was, and
  \<open>get_recommendations\<close> and \<open>analyze_skill_gaps\<close> return what they returned before.
\<close>

theorem engine_owns_copy:
  assumes "engine_init fit st a = Some (st', obj)" and "b < length st"
  shows "prepare_data fit (st ! a) = Some (deref st' obj)
     \<and> deref (mutate st' b df') obj = deref st' obj
     \<and> get_recommendations sorter (deref (mutate st' b df') obj) us loc lvl lo hi n
         = get_recommendations sorter (deref st' obj) us loc lvl lo hi n
     \<and> analyze_skill_gaps rx (deref (mutate st' b df') obj) us role
         = analyze_skill_gaps rx (deref st' obj) us role"
proof -
  from assms(1) obtain e where e: "prepare_data fit (st ! a) = Some e"
    and st': "st' = st @ [jobs_df e]"
    and obj: "obj = \<lparr>df_addr = length st, vectorizer = transform e, vectors = job_vectors e\<rparr>"
    by (auto simp: engine_init_def split: if_splits option.splits)
  have d: "deref st' obj = e"
    by (simp add: deref_def st' obj)
  have m: "deref (mutate st' b df') obj = deref st' obj"
    using assms(2) by (simp add: deref_def mutate_def st' obj nth_list_update nth_append)
  show ?thesis
    by (simp add: m d e)
qed

theorem engine_owns_copy_witness:
  "\<exists>st' obj. engine_init fit0 [[job1]] 0 = Some (st', obj) \<and> (0::nat) < length [[job1]]
     \<and> get_recommendations (\<lambda>ks. [0]) (deref (mutate st' 0 []) obj) [''Python''] None None None None 10
         = get_recommendations (\<lambda>ks. [0]) (deref st' obj) [''Python''] None None None None 10
     \<and> jobs_df (deref (mutate st' 0 []) obj)
         = [job1\<lparr>combined_text := Some (combine_job_features job1)\<rparr>]"
proof -
  obtain st' obj where e: "engine_init fit0 [[job1]] 0 = Some (st', obj)"
    by (simp add: engine_init_def prepare_data_def fit0_def Let_def)
  have b: "(0::nat) < length [[job1]]" by simp
  have j: "jobs_df (deref st' obj) = [job1\<lparr>combined_text := Some (combine_job_features job1)\<rparr>]"
    using e by (auto simp: engine_init_def prepare_data_def fit0_def Let_def deref_def)
  from engine_owns_copy [OF e b, of "[]" "\<lambda>ks. [0]" "[''Python'']" None None None None 10]
  show ?thesis using e j by auto
qed

section \<open>A target role without any match\<close>

lemma re_special_to_lower: "re_special (to_lower c) = re_special c"
  by (auto simp: re_special_def to_lower_def upper_chars_def lower_chars_def split: option.splits if_splits)


lemma re_special_py_lower: "(\<exists>c \<in> set (py_lower s). re_special c) = (\<exists>c \<in> set s. re_special c)"
  by (simp add: py_lower_def re_special_to_lower)

lemma py_words_chars: "w \<in> set (py_words s) \<Longrightarrow> set w \<subseteq> set s"
proof (induction s arbitrary: w rule: py_words.induct)
  case 1
  then show ?case by simp
next
  case (2 c cs)
  show ?case
  proof (cases "is_space c")
    case True
    with 2 show ?thesis by auto
  next
    case False
    with "2.prems" have "w = c # takeWhile (\<lambda>d. \<not> is_space d) cs
        \<or> w \<in> set (py_words (dropWhile (\<lambda>d. \<not> is_space d) cs))"
      by simp
    then show ?thesis
    proof
      assume "w = c # takeWhile (\<lambda>d. \<not> is_space d) cs"
      then show ?thesis using set_takeWhileD by fastforce
    next
      assume "w \<in> set (py_words (dropWhile (\<lambda>d. \<not> is_space d) cs))"
      with "2.IH"(2) [OF False] have "set w \<subseteq> set (dropWhile (\<lambda>d. \<not> is_space d) cs)"
        by simp
      then show ?thesis using set_dropWhileD by fastforce
    qed
  qed
qed

lemma keyword_search_empty:
  assumes "\<forall>k \<in> set ks. \<forall>c \<in> set k. \<not> re_special c"
    and "\<forall>k \<in> set ks. \<forall>r \<in> set jobs. \<forall>t. job_title r = Some t \<longrightarrow> \<not> py_in (py_lower k) (py_lower t)"
  shows "keyword_search rx jobs [] ks = Inr []"
  using assms
proof (induction ks)
  case Nil
  then show ?case by simp
next
  case (Cons k ks)
  have "role_filter rx jobs k = Inr []"
    using Cons.prems
    by (auto simp: role_filter_def compile_ci_def cell_contains_def filter_empty_conv
             split: option.splits)
  with Cons show ?case by simp
qed

lemma analyze_skill_gaps_no_match:
  assumes lit: "\<forall>c \<in> set role. \<not> re_special c"
    and whole: "\<forall>r \<in> set (jobs_df eng). \<forall>t. job_title r = Some t \<longrightarrow>
                  \<not> py_in (py_lower role) (py_lower t)"
    and words: "\<forall>k \<in> set (py_words (py_lower role)). \<forall>r \<in> set (jobs_df eng). \<forall>t.
                  job_title r = Some t \<longrightarrow> \<not> py_in (py_lower k) (py_lower t)"
  shows "analyze_skill_gaps rx eng user_skills role =
           Inr \<lparr>target_role = role, total_role_jobs = 0, existing_skills = [],
                missing_skills = [], skill_match_percentage = 0\<rparr>"
proof -
  have a: "role_filter rx (jobs_df eng) role = Inr []"
    using lit whole
    by (auto simp: role_filter_def compile_ci_def cell_contains_def filter_empty_conv
             split: option.splits)
  have "\<forall>k \<in> set (py_words (py_lower role)). \<forall>c \<in> set k. \<not> re_special c"
    using lit py_words_chars re_special_py_lower by blast
  then have b: "keyword_search rx (jobs_df eng) [] (py_words (py_lower role)) = Inr []"
    using words by (rule keyword_search_empty)
  show ?thesis
    by (simp add: analyze_skill_gaps_def a b required_skills_of_def Let_def)
qed

text \<open>
  C7. \<open>analyze_skill_gaps\<close> hands the target role to \<open>str.contains\<close> as a regular
  expression. The role \<open>QA (Manual\<close> occurs in no title, and it is a pattern that
  \<open>re.compile\<close> refuses (the group is not closed): the call raises instead of returning the
  empty report. For a role without special characters the report is the empty one, as
  \<open>analyze_skill_gaps_no_match\<close> shows.
\<close>

theorem analyze_skill_gaps_regex_error:
  "rx ''QA (Manual'' = None \<Longrightarrow> analyze_skill_gaps rx eng user_skills ''QA (Manual'' = Inl ReError"
  by (simp add: analyze_skill_gaps_def role_filter_def compile_ci_def re_special_def)

theorem analyze_skill_gaps_regex_error_witness:
  "(\<lambda>p. None) ''QA (Manual'' = (None :: (string \<Rightarrow> bool) option)
   \<and> \<not> py_in (py_lower ''QA (Manual'') (py_lower ''Data Analyst'')
   \<and> analyze_skill_gaps (\<lambda>p. None) eng0 [''Python''] ''QA (Manual'' = Inl ReError"
  using analyze_skill_gaps_regex_error [of "\<lambda>p. None" eng0 "[''Python'']"]
  by (simp add: str_eval)


section \<open>An empty list of skills\<close>








lemma py_head_sorted_wrt: "sorted_wrt P xs \<Longrightarrow> sorted_wrt P (py_head n xs)"
  by (simp add: py_head_def sorted_wrt_take)










section \<open>The order of the recommendations\<close>

text \<open>Where the sort of the positions returns an ascending arrangement of the reversed
  column, the sorted frame, and with it the result of \<open>get_recommendations\<close>, is in
  descending order of the score. Nothing follows for rows of equal score: their order is
  the one the sort of the positions gives them.\<close>

lemma sort_values_descending:
  assumes "mset (argsort (rev (map compatibility_score df))) = mset [0 ..< length df]"
    and "sorted_wrt (\<lambda>i j. rev (map compatibility_score df) ! i \<le> rev (map compatibility_score df) ! j)
           (argsort (rev (map compatibility_score df)))"
  shows "sorted_wrt (\<lambda>r s. compatibility_score r \<ge> compatibility_score s)
           (sort_values_desc argsort df)"
proof -
  let ?items = "rev (map compatibility_score df)"
  let ?pos = "argsort ?items"
  let ?idx = "rev [0 ..< length df]"
  have "set ?pos = set [0 ..< length df]"
    using assms(1) by (rule mset_eq_setD)
  then have rng: "j < length df" if "j \<in> set ?pos" for j
    using that by simp
  have key: "?items ! j = compatibility_score (df ! (?idx ! j))" if "j < length df" for j
    using that by (simp add: rev_nth)
  have "sorted_wrt (\<lambda>i j. compatibility_score (df ! (?idx ! i))
                          \<le> compatibility_score (df ! (?idx ! j))) ?pos"
    using assms(2) by (rule sorted_wrt_mono_rel [rotated]) (simp add: key rng)
  then have "sorted_wrt (\<lambda>a b. compatibility_score (df ! a) \<le> compatibility_score (df ! b))
               (map (\<lambda>j. ?idx ! j) ?pos)"
    by (simp add: sorted_wrt_map)
  then have "sorted_wrt (\<lambda>a b. compatibility_score (df ! a) \<ge> compatibility_score (df ! b))
               (rev (map (\<lambda>j. ?idx ! j) ?pos))"
    by (simp only: sorted_wrt_rev)
  then show ?thesis
    by (simp add: sort_values_desc_def Let_def sorted_wrt_map)
qed

lemma recommendations_descending:
  assumes "mset (argsort (rev (map compatibility_score
                                 (apply_filters (scored_rows eng us) loc lvl lo hi))))
           = mset [0 ..< length (apply_filters (scored_rows eng us) loc lvl lo hi)]"
    and "sorted_wrt (\<lambda>i j. rev (map compatibility_score
                                   (apply_filters (scored_rows eng us) loc lvl lo hi)) ! i
                          \<le> rev (map compatibility_score
                                   (apply_filters (scored_rows eng us) loc lvl lo hi)) ! j)
           (argsort (rev (map compatibility_score
                            (apply_filters (scored_rows eng us) loc lvl lo hi))))"
  shows "sorted_wrt (\<lambda>r s. compatibility_score r \<ge> compatibility_score s)
           (get_recommendations argsort eng us loc lvl lo hi n)"
proof -
  have "sorted_wrt (\<lambda>r s. compatibility_score r \<ge> compatibility_score s)
          (sort_values_desc argsort (apply_filters (scored_rows eng us) loc lvl lo hi))"
    using assms by (rule sort_values_descending)
  from py_head_sorted_wrt [OF this, of n] show ?thesis
    by (simp add: get_recommendations_def Let_def sorted_wrt_map)
qed

section \<open>Strings that are already clean\<close>









subsection \<open>Title case\<close>









subsection \<open>Stripping\<close>







subsection \<open>Runs of white space\<close>







subsection \<open>The title of a job\<close>




subsection \<open>Skills\<close>











subsection \<open>Locations\<close>




section \<open>Normalizing twice\<close>







end
